theory Spec2Isabelle
  imports Complex_Main "HOL-Library.Word" "HOL-Library.Sublist"
begin

section \<open>Photo quality validation: the scoring pipeline\<close>

text \<open>
  The development follows the TypeScript sources: the mock quality model
  (\<open>MockQualityModel\<close>), the validation service (\<open>PhotoValidationService\<close>) and the
  gRPC handler \<open>ValidatePhotoQuality\<close>.

  A JavaScript \<open>number\<close> is modelled as a \<^typ>\<open>real\<close>: the arithmetic of the source is
  read exactly, the rounding of IEEE doubles and the values NaN and Infinity are left out.
  A \<open>Buffer\<close> is a list of bytes.
\<close>

subsection \<open>Types of the mock quality model\<close>

datatype Grade = A | B | C | REJECT

datatype QualityIssueType =
  TOO_DARK | TOO_BRIGHT | BLURRY | NO_PRODUCE | LOW_RESOLUTION | POOR_FRAMING

text \<open>The string value of each member of the enum \<open>QualityIssueType\<close>.\<close>

fun issue_type_name :: "QualityIssueType \<Rightarrow> string" where
  "issue_type_name TOO_DARK = ''TOO_DARK''"
| "issue_type_name TOO_BRIGHT = ''TOO_BRIGHT''"
| "issue_type_name BLURRY = ''BLURRY''"
| "issue_type_name NO_PRODUCE = ''NO_PRODUCE''"
| "issue_type_name LOW_RESOLUTION = ''LOW_RESOLUTION''"
| "issue_type_name POOR_FRAMING = ''POOR_FRAMING''"

text \<open>
  A message is a string literal, or the template literal of the resolution check with the
  four interpolated numbers kept as they are:
  \<^verbatim>\<open>`Resolution ${w}x${h} below minimum ${MIN_WIDTH}x${MIN_HEIGHT}`\<close>.
\<close>

datatype message_text =
  Literal string
| Resolution_below_minimum real real real real

record QualityIssue =
  type :: QualityIssueType
  severity :: real
  message :: message_text
  suggestion :: string

record QualityPrediction =
  grade :: Grade
  confidence :: real
  issues :: "QualityIssue list"

record ImageStats =
  width :: real
  height :: real
  brightness :: real
  contrast :: real
  sharpness :: real
  hasProduceColors :: bool

type_synonym Buffer = "8 word list"

subsection \<open>MockQualityModel\<close>

definition MIN_WIDTH :: real where "MIN_WIDTH = 1024"
definition MIN_HEIGHT :: real where "MIN_HEIGHT = 768"
definition MIN_BRIGHTNESS :: real where "MIN_BRIGHTNESS = 40"
definition MAX_BRIGHTNESS :: real where "MAX_BRIGHTNESS = 220"
definition MIN_SHARPNESS :: real where "MIN_SHARPNESS = 100"
definition MIN_CONTRAST :: real where "MIN_CONTRAST = 30"

text \<open>
  \<open>predict\<close> keeps two local variables, the list \<open>issues\<close> and the number \<open>score\<close>, and
  runs four checks on them in turn. Each check is a function on that pair (the list is
  called \<open>found\<close> below, the name \<open>issues\<close> being the field of the prediction), and
  \<open>push\<close> appends.
\<close>

type_synonym scoring = "QualityIssue list \<times> real"

definition check_resolution :: "ImageStats \<Rightarrow> scoring \<Rightarrow> scoring" where
  "check_resolution stats st =
     (case st of (found, score) \<Rightarrow>
        if width stats < MIN_WIDTH \<or> height stats < MIN_HEIGHT
        then (found @ [\<lparr>type = LOW_RESOLUTION, severity = 0.5,
                message = Resolution_below_minimum (width stats) (height stats) MIN_WIDTH MIN_HEIGHT,
                suggestion = ''Move closer to the produce or use higher camera resolution''\<rparr>],
              score - 0.2)
        else (found, score))"

definition check_brightness :: "ImageStats \<Rightarrow> scoring \<Rightarrow> scoring" where
  "check_brightness stats st =
     (case st of (found, score) \<Rightarrow>
        if brightness stats < MIN_BRIGHTNESS
        then (let sev = (MIN_BRIGHTNESS - brightness stats) / MIN_BRIGHTNESS
              in (found @ [\<lparr>type = TOO_DARK, severity = sev,
                    message = Literal ''Photo is too dark for accurate quality assessment'',
                    suggestion = ''Move to brighter lighting or use flash''\<rparr>],
                  score - 0.25 * sev))
        else if brightness stats > MAX_BRIGHTNESS
        then (let sev = (brightness stats - MAX_BRIGHTNESS) / (255 - MAX_BRIGHTNESS)
              in (found @ [\<lparr>type = TOO_BRIGHT, severity = sev,
                    message = Literal ''Photo is overexposed (too bright)'',
                    suggestion = ''Move away from direct sunlight or reduce flash''\<rparr>],
                  score - 0.25 * sev))
        else (found, score))"

definition check_sharpness :: "ImageStats \<Rightarrow> scoring \<Rightarrow> scoring" where
  "check_sharpness stats st =
     (case st of (found, score) \<Rightarrow>
        if sharpness stats < MIN_SHARPNESS
        then (let sev = (MIN_SHARPNESS - sharpness stats) / MIN_SHARPNESS
              in (found @ [\<lparr>type = BLURRY, severity = sev,
                    message = Literal ''Photo is blurry, cannot assess quality accurately'',
                    suggestion = ''Hold camera steady and ensure produce is in focus''\<rparr>],
                  score - 0.3 * sev))
        else (found, score))"

definition check_produce :: "ImageStats \<Rightarrow> scoring \<Rightarrow> scoring" where
  "check_produce stats st =
     (case st of (found, score) \<Rightarrow>
        if \<not> hasProduceColors stats
        then (found @ [\<lparr>type = NO_PRODUCE, severity = 0.8,
                message = Literal ''Cannot detect produce in photo'',
                suggestion = ''Ensure produce fills most of the frame''\<rparr>],
              score - 0.4)
        else (found, score))"

text \<open>The issues and the score after the four checks, before the score is clamped.\<close>

definition run_checks :: "ImageStats \<Rightarrow> scoring" where
  "run_checks stats =
     check_produce stats (check_sharpness stats (check_brightness stats
       (check_resolution stats ([], 1))))"

definition scoreToGrade :: "real \<Rightarrow> Grade" where
  "scoreToGrade score =
     (if score \<ge> 0.85 then A
      else if score \<ge> 0.65 then B
      else if score \<ge> 0.45 then C
      else REJECT)"

text \<open>The \<open>for ... of\<close> loop of \<open>calculateConfidence\<close>, one issue at a time.\<close>

fun reduce_confidence :: "real \<Rightarrow> QualityIssue list \<Rightarrow> real" where
  "reduce_confidence c [] = c"
| "reduce_confidence c (issue # rest) = reduce_confidence (c - 0.1 * severity issue) rest"

definition calculateConfidence :: "ImageStats \<Rightarrow> QualityIssue list \<Rightarrow> real" where
  "calculateConfidence stats found =
     (let c = reduce_confidence 0.9 found;
          c = (if brightness stats > 180 \<or> brightness stats < 60 then c - 0.1 else c)
      in max 0.3 (min 0.99 c))"

text \<open>The clamped score that \<open>predict\<close> hands to \<open>scoreToGrade\<close>.\<close>

definition rawScore :: "ImageStats \<Rightarrow> real" where
  "rawScore stats = max 0 (min 1 (snd (run_checks stats)))"

definition predict :: "ImageStats \<Rightarrow> QualityPrediction" where
  "predict stats =
     (let found = fst (run_checks stats);
          score = rawScore stats
      in \<lparr>grade = scoreToGrade score,
          confidence = calculateConfidence stats found,
          issues = found\<rparr>)"

subsection \<open>The mock image analysis\<close>

text \<open>
  The byte \<open>buffer[i]\<close> as a number. Both loops below run over \<open>i < sampleSize\<close> with
  \<open>sampleSize = Math.min(1000, buffer.length)\<close>, so every read is inside the buffer.
\<close>

definition byte_at :: "Buffer \<Rightarrow> nat \<Rightarrow> real" where
  "byte_at buffer i = real (unat (buffer ! i))"

text \<open>The loop \<^verbatim>\<open>for (let i = 0; i < sampleSize; i++) sum += buffer[i]\<close>.\<close>

function sum_loop :: "Buffer \<Rightarrow> nat \<Rightarrow> nat \<Rightarrow> real \<Rightarrow> real" where
  "sum_loop buffer sampleSize i acc =
     (if i < sampleSize then sum_loop buffer sampleSize (i + 1) (acc + byte_at buffer i)
      else acc)"
  by pat_completeness auto
termination
  by (relation "measure (\<lambda>(buffer, sampleSize, i, acc). sampleSize - i)") auto

declare sum_loop.simps [simp del]

definition mockBrightness :: "Buffer \<Rightarrow> real" where
  "mockBrightness buffer =
     (if length buffer < 100 then 128
      else (let sampleSize = min 1000 (length buffer)
            in sum_loop buffer sampleSize 0 0 / real sampleSize))"

text \<open>
  The loop
  \<^verbatim>\<open>for (let i = 0; i < sampleSize; i++) variance += Math.pow(buffer[i] - mean, 2)\<close>.
\<close>

function variance_loop :: "Buffer \<Rightarrow> real \<Rightarrow> nat \<Rightarrow> nat \<Rightarrow> real \<Rightarrow> real" where
  "variance_loop buffer mean sampleSize i variance =
     (if i < sampleSize
      then variance_loop buffer mean sampleSize (i + 1) (variance + (byte_at buffer i - mean)\<^sup>2)
      else variance)"
  by pat_completeness auto
termination
  by (relation "measure (\<lambda>(buffer, mean, sampleSize, i, variance). sampleSize - i)") auto

declare variance_loop.simps [simp del]

definition mockContrast :: "Buffer \<Rightarrow> real" where
  "mockContrast buffer =
     (let mean = mockBrightness buffer
      in if length buffer < 100 then 50
         else (let sampleSize = min 1000 (length buffer)
               in sqrt (variance_loop buffer mean sampleSize 0 0 / real sampleSize)))"

definition mockSharpness :: "Buffer \<Rightarrow> real" where
  "mockSharpness buffer = (if length buffer < 100 then 150 else mockContrast buffer * 3)"

definition mockProduceDetection :: "Buffer \<Rightarrow> bool" where
  "mockProduceDetection buffer = (length buffer > 10000)"

definition extractStats :: "Buffer \<Rightarrow> real \<Rightarrow> real \<Rightarrow> ImageStats" where
  "extractStats imageBuffer w h =
     \<lparr>width = w, height = h,
      brightness = mockBrightness imageBuffer,
      contrast = mockContrast imageBuffer,
      sharpness = mockSharpness imageBuffer,
      hasProduceColors = mockProduceDetection imageBuffer\<rparr>"

subsection \<open>PhotoValidationService\<close>

text \<open>
  The fields \<open>width\<close>, \<open>height\<close>, \<open>grade\<close>, \<open>confidence\<close>, \<open>issues\<close>, \<open>type\<close>,
  \<open>message\<close> and \<open>suggestion\<close> occur in several interfaces of the source; the later
  records carry a prefix.
\<close>

record PhotoValidationRequest =
  photoUrl :: string
  req_width :: real
  req_height :: real
  imageBuffer :: "Buffer option"

record PhotoIssue =
  photo_type :: string
  photo_message :: message_text
  photo_suggestion :: string

record PhotoValidationResult =
  isValid :: bool
  qualityScore :: real
  result_grade :: Grade
  result_confidence :: real
  result_issues :: "PhotoIssue list"

text \<open>
  \<open>if (request.imageBuffer)\<close>: a \<open>Buffer\<close> is an object, so the test is true for every
  buffer that is present, the empty one included.
\<close>

definition getImageStats :: "PhotoValidationRequest \<Rightarrow> ImageStats" where
  "getImageStats request =
     (case imageBuffer request of
        Some buffer \<Rightarrow> extractStats buffer (req_width request) (req_height request)
      | None \<Rightarrow>
          \<lparr>width = req_width request, height = req_height request,
           brightness = 140, contrast = 50, sharpness = 180, hasProduceColors = True\<rparr>)"

fun grade_name :: "Grade \<Rightarrow> string" where
  "grade_name A = ''A''"
| "grade_name B = ''B''"
| "grade_name C = ''C''"
| "grade_name REJECT = ''REJECT''"

definition scores :: "(string \<times> real) list" where
  "scores = [(''A'', 0.95), (''B'', 0.75), (''C'', 0.55), (''REJECT'', 0.25)]"

text \<open>
  \<open>scores[grade] || 0.5\<close>: the parameter has the type \<open>'A' | 'B' | 'C' | 'REJECT'\<close>, and each
  of the four is a key of the table's own, so the read never goes to the prototype. The
  right operand is taken when the key is missing or the number is zero.
\<close>

definition gradeToScore :: "Grade \<Rightarrow> real" where
  "gradeToScore g =
     (case map_of scores (grade_name g) of
        Some v \<Rightarrow> if v = 0 then 0.5 else v
      | None \<Rightarrow> 0.5)"

text \<open>
  \<open>validatePhoto\<close>. No step of the \<open>try\<close> block throws, so the \<open>catch\<close> branch is never
  taken and the result is returned directly; the log records and the timing are left out.
\<close>

definition validatePhoto :: "PhotoValidationRequest \<Rightarrow> PhotoValidationResult" where
  "validatePhoto request =
     (let stats = getImageStats request;
          prediction = predict stats;
          valid = (grade prediction \<noteq> REJECT \<and> length (issues prediction) = 0);
          score = gradeToScore (grade prediction)
      in \<lparr>isValid = valid,
          qualityScore = score,
          result_grade = grade prediction,
          result_confidence = confidence prediction,
          result_issues =
            map (\<lambda>issue. \<lparr>photo_type = issue_type_name (type issue),
                             photo_message = message issue,
                             photo_suggestion = suggestion issue\<rparr>)
              (issues prediction)\<rparr>)"

definition validateResolution :: "real \<Rightarrow> real \<Rightarrow> bool" where
  "validateResolution w h = (w \<ge> 1024 \<and> h \<ge> 768)"

subsection \<open>The suggestion table\<close>

text \<open>
  \<open>getSuggestion\<close> reads a two-level object literal with keys that come from the caller. A
  property read on an object literal finds the object's own properties and, for any other
  key, the properties of \<open>Object.prototype\<close>. The values that can arise are:
  \<^item> \<open>undefined\<close>;
  \<^item> a string;
  \<^item> an object literal, given by its own properties;
  \<^item> the member of \<open>Object.prototype\<close> of a given name (a function, or for \<open>__proto__\<close>
    the prototype object itself); it is an object, never a string;
  \<^item> a property of such a member, which this model does not determine.
\<close>

datatype js_value =
  Undefined
| Str string
| Obj "(string \<times> js_value) list"
| Proto_member string
| Unmodelled

definition Object_prototype_members :: "string list" where
  "Object_prototype_members =
     [''constructor'', ''__proto__'', ''hasOwnProperty'', ''isPrototypeOf'',
      ''propertyIsEnumerable'', ''toLocaleString'', ''toString'', ''valueOf'',
      ''__defineGetter__'', ''__defineSetter__'', ''__lookupGetter__'', ''__lookupSetter__'']"

text \<open>\<open>obj[key]\<close> for an object literal with the own properties \<open>own\<close>.\<close>

definition get_property :: "(string \<times> js_value) list \<Rightarrow> string \<Rightarrow> js_value" where
  "get_property own key =
     (case map_of own key of
        Some v \<Rightarrow> v
      | None \<Rightarrow> if key \<in> set Object_prototype_members then Proto_member key else Undefined)"

text \<open>\<open>v?.[key]\<close>: \<open>undefined\<close> when \<open>v\<close> is \<open>undefined\<close>, the property read otherwise.\<close>

fun optional_get :: "js_value \<Rightarrow> string \<Rightarrow> js_value" where
  "optional_get Undefined key = Undefined"
| "optional_get (Obj own) key = get_property own key"
| "optional_get (Str s) key = Unmodelled"
| "optional_get (Proto_member m) key = Unmodelled"
| "optional_get Unmodelled key = Unmodelled"

text \<open>Truthiness: \<open>undefined\<close> and the empty string are falsy, every object is truthy.\<close>

fun truthy :: "js_value \<Rightarrow> bool" where
  "truthy Undefined = False"
| "truthy (Str s) = (s \<noteq> [])"
| "truthy (Obj own) = True"
| "truthy (Proto_member m) = True"
| "truthy Unmodelled = True"

text \<open>\<open>a || b\<close>; where the left operand is not determined, neither is the result.\<close>

definition js_or :: "js_value \<Rightarrow> js_value \<Rightarrow> js_value" where
  "js_or a b = (if truthy a then a else b)"

text \<open>The texts of the four regional languages, as their UTF-8 bytes.\<close>

definition TOO_DARK_kn :: string where
  "TOO_DARK_kn = map char_of
     [224, 178, 185, 224, 179, 134, 224, 178, 154, 224, 179, 141, 224, 178, 154, 224, 179, 129, 32, 224,
      178, 172, 224, 179, 134, 224, 178, 179, 224, 178, 149, 224, 178, 191, 224, 178, 151, 224, 179, 134,
      32, 224, 178, 185, 224, 179, 139, 224, 178, 151, 224, 178, 191, 32, 224, 178, 133, 224, 178, 165,
      224, 178, 181, 224, 178, 190, 32, 224, 178, 171, 224, 179, 141, 224, 178, 178, 224, 178, 190, 224,
      178, 182, 224, 179, 141, 32, 224, 178, 172, 224, 178, 179, 224, 178, 184, 224, 178, 191 :: nat]"

definition TOO_DARK_hi :: string where
  "TOO_DARK_hi = map char_of
     [224, 164, 164, 224, 165, 135, 224, 164, 156, 32, 224, 164, 176, 224, 165, 139, 224, 164, 182, 224,
      164, 168, 224, 165, 128, 32, 224, 164, 174, 224, 165, 135, 224, 164, 130, 32, 224, 164, 156, 224,
      164, 190, 224, 164, 143, 224, 164, 130, 32, 224, 164, 175, 224, 164, 190, 32, 224, 164, 171, 224,
      165, 141, 224, 164, 178, 224, 165, 136, 224, 164, 182, 32, 224, 164, 149, 224, 164, 190, 32, 224,
      164, 137, 224, 164, 170, 224, 164, 175, 224, 165, 139, 224, 164, 151, 32, 224, 164, 149, 224, 164,
      176, 224, 165, 135, 224, 164, 130 :: nat]"

definition TOO_DARK_ta :: string where
  "TOO_DARK_ta = map char_of
     [224, 174, 170, 224, 174, 191, 224, 174, 176, 224, 174, 149, 224, 174, 190, 224, 174, 154, 224, 174,
      174, 224, 174, 190, 224, 174, 169, 32, 224, 174, 181, 224, 175, 134, 224, 174, 179, 224, 174, 191,
      224, 174, 154, 224, 175, 141, 224, 174, 154, 224, 174, 164, 224, 175, 141, 224, 174, 164, 224, 174,
      191, 224, 174, 177, 224, 175, 141, 224, 174, 149, 224, 175, 129, 32, 224, 174, 154, 224, 175, 134,
      224, 174, 178, 224, 175, 141, 224, 174, 178, 224, 174, 181, 224, 175, 129, 224, 174, 174, 224, 175,
      141, 32, 224, 174, 133, 224, 174, 178, 224, 175, 141, 224, 174, 178, 224, 174, 164, 224, 175, 129,
      32, 224, 174, 131, 224, 174, 170, 224, 174, 191, 224, 174, 179, 224, 174, 190, 224, 174, 183, 224,
      175, 141, 32, 224, 174, 170, 224, 174, 175, 224, 174, 169, 224, 175, 141, 224, 174, 170, 224, 174,
      159, 224, 175, 129, 224, 174, 164, 224, 175, 141, 224, 174, 164, 224, 174, 181, 224, 175, 129, 224,
      174, 174, 224, 175, 141 :: nat]"

definition TOO_DARK_te :: string where
  "TOO_DARK_te = map char_of
     [224, 176, 170, 224, 177, 141, 224, 176, 176, 224, 176, 149, 224, 176, 190, 224, 176, 182, 224, 176,
      181, 224, 176, 130, 224, 176, 164, 224, 176, 174, 224, 177, 136, 224, 176, 168, 32, 224, 176, 181,
      224, 177, 134, 224, 176, 178, 224, 177, 129, 224, 176, 164, 224, 177, 129, 224, 176, 176, 224, 177,
      129, 224, 176, 178, 224, 177, 139, 32, 224, 176, 181, 224, 177, 134, 224, 176, 179, 224, 177, 141,
      224, 176, 179, 224, 176, 130, 224, 176, 161, 224, 176, 191, 32, 224, 176, 178, 224, 177, 135, 224,
      176, 166, 224, 176, 190, 32, 224, 176, 171, 224, 177, 141, 224, 176, 178, 224, 176, 190, 224, 176,
      183, 224, 177, 141, 32, 224, 176, 137, 224, 176, 170, 224, 176, 175, 224, 177, 139, 224, 176, 151,
      224, 176, 191, 224, 176, 130, 224, 176, 154, 224, 176, 130, 224, 176, 161, 224, 176, 191 :: nat]"

definition TOO_BRIGHT_kn :: string where
  "TOO_BRIGHT_kn = map char_of
     [224, 178, 168, 224, 179, 135, 224, 178, 176, 32, 224, 178, 184, 224, 179, 130, 224, 178, 176, 224,
      179, 141, 224, 178, 175, 224, 178, 168, 32, 224, 178, 172, 224, 179, 134, 224, 178, 179, 224, 178,
      149, 224, 178, 191, 224, 178, 168, 224, 178, 191, 224, 178, 130, 224, 178, 166, 32, 224, 178, 166,
      224, 179, 130, 224, 178, 176, 32, 224, 178, 185, 224, 179, 139, 224, 178, 151, 224, 178, 191 :: nat]"

definition TOO_BRIGHT_hi :: string where
  "TOO_BRIGHT_hi = map char_of
     [224, 164, 184, 224, 165, 128, 224, 164, 167, 224, 165, 128, 32, 224, 164, 167, 224, 165, 130, 224,
      164, 170, 32, 224, 164, 184, 224, 165, 135, 32, 224, 164, 166, 224, 165, 130, 224, 164, 176, 32,
      224, 164, 185, 224, 164, 159, 224, 165, 135, 224, 164, 130 :: nat]"

definition TOO_BRIGHT_ta :: string where
  "TOO_BRIGHT_ta = map char_of
     [224, 174, 168, 224, 175, 135, 224, 174, 176, 224, 174, 159, 224, 174, 191, 32, 224, 174, 154, 224,
      175, 130, 224, 174, 176, 224, 174, 191, 224, 174, 175, 32, 224, 174, 146, 224, 174, 179, 224, 174,
      191, 224, 174, 175, 224, 174, 191, 224, 174, 178, 224, 174, 191, 224, 174, 176, 224, 175, 129, 224,
      174, 168, 224, 175, 141, 224, 174, 164, 224, 175, 129, 32, 224, 174, 181, 224, 174, 191, 224, 174,
      178, 224, 174, 149, 224, 174, 191, 32, 224, 174, 154, 224, 175, 134, 224, 174, 178, 224, 175, 141,
      224, 174, 178, 224, 174, 181, 224, 175, 129, 224, 174, 174, 224, 175, 141 :: nat]"

definition TOO_BRIGHT_te :: string where
  "TOO_BRIGHT_te = map char_of
     [224, 176, 170, 224, 177, 141, 224, 176, 176, 224, 176, 164, 224, 177, 141, 224, 176, 175, 224, 176,
      149, 224, 177, 141, 224, 176, 183, 32, 224, 176, 184, 224, 177, 130, 224, 176, 176, 224, 177, 141,
      224, 176, 175, 224, 176, 149, 224, 176, 190, 224, 176, 130, 224, 176, 164, 224, 176, 191, 32, 224,
      176, 168, 224, 177, 129, 224, 176, 130, 224, 176, 161, 224, 176, 191, 32, 224, 176, 166, 224, 177,
      130, 224, 176, 176, 224, 176, 130, 224, 176, 151, 224, 176, 190, 32, 224, 176, 181, 224, 177, 134,
      224, 176, 179, 224, 177, 141, 224, 176, 179, 224, 176, 130, 224, 176, 161, 224, 176, 191 :: nat]"

definition BLURRY_kn :: string where
  "BLURRY_kn = map char_of
     [224, 178, 149, 224, 179, 141, 224, 178, 175, 224, 178, 190, 224, 178, 174, 224, 179, 134, 224, 178,
      176, 224, 178, 190, 224, 178, 181, 224, 178, 168, 224, 179, 141, 224, 178, 168, 224, 179, 129, 32,
      224, 178, 184, 224, 179, 141, 224, 178, 165, 224, 178, 191, 224, 178, 176, 224, 178, 181, 224, 178,
      190, 224, 178, 151, 224, 178, 191, 32, 224, 178, 185, 224, 178, 191, 224, 178, 161, 224, 178, 191,
      224, 178, 166, 224, 179, 129, 32, 224, 178, 171, 224, 179, 139, 224, 178, 149, 224, 178, 184, 224,
      179, 141, 32, 224, 178, 174, 224, 178, 190, 224, 178, 161, 224, 178, 178, 224, 179, 129, 32, 224,
      178, 159, 224, 179, 141, 224, 178, 175, 224, 178, 190, 224, 178, 170, 224, 179, 141, 32, 224, 178,
      174, 224, 178, 190, 224, 178, 161, 224, 178, 191 :: nat]"

definition BLURRY_hi :: string where
  "BLURRY_hi = map char_of
     [224, 164, 149, 224, 165, 136, 224, 164, 174, 224, 164, 176, 224, 164, 190, 32, 224, 164, 184, 224,
      165, 141, 224, 164, 165, 224, 164, 191, 224, 164, 176, 32, 224, 164, 176, 224, 164, 150, 224, 165,
      135, 224, 164, 130, 32, 224, 164, 148, 224, 164, 176, 32, 224, 164, 171, 224, 165, 139, 224, 164,
      149, 224, 164, 184, 32, 224, 164, 149, 224, 164, 176, 224, 164, 168, 224, 165, 135, 32, 224, 164,
      149, 224, 165, 135, 32, 224, 164, 178, 224, 164, 191, 224, 164, 143, 32, 224, 164, 159, 224, 165,
      136, 224, 164, 170, 32, 224, 164, 149, 224, 164, 176, 224, 165, 135, 224, 164, 130 :: nat]"

definition BLURRY_ta :: string where
  "BLURRY_ta = map char_of
     [224, 174, 149, 224, 175, 135, 224, 174, 174, 224, 174, 176, 224, 174, 190, 224, 174, 181, 224, 175,
      136, 32, 224, 174, 168, 224, 174, 191, 224, 174, 178, 224, 175, 136, 224, 174, 175, 224, 174, 190,
      224, 174, 149, 32, 224, 174, 170, 224, 174, 191, 224, 174, 159, 224, 174, 191, 224, 174, 164, 224,
      175, 141, 224, 174, 164, 224, 175, 129, 32, 224, 174, 131, 224, 174, 170, 224, 175, 139, 224, 174,
      149, 224, 174, 184, 224, 175, 141, 32, 224, 174, 154, 224, 175, 134, 224, 174, 175, 224, 175, 141,
      224, 174, 175, 32, 224, 174, 159, 224, 175, 135, 224, 174, 170, 224, 175, 141, 32, 224, 174, 154,
      224, 175, 134, 224, 174, 175, 224, 175, 141, 224, 174, 175, 224, 174, 181, 224, 175, 129, 224, 174,
      174, 224, 175, 141 :: nat]"

definition BLURRY_te :: string where
  "BLURRY_te = map char_of
     [224, 176, 149, 224, 177, 134, 224, 176, 174, 224, 177, 134, 224, 176, 176, 224, 176, 190, 224, 176,
      168, 224, 177, 129, 32, 224, 176, 184, 224, 177, 141, 224, 176, 165, 224, 176, 191, 224, 176, 176,
      224, 176, 130, 224, 176, 151, 224, 176, 190, 32, 224, 176, 170, 224, 176, 159, 224, 177, 141, 224,
      176, 159, 224, 177, 129, 224, 176, 149, 224, 177, 129, 224, 176, 168, 224, 176, 191, 32, 224, 176,
      171, 224, 177, 139, 224, 176, 149, 224, 176, 184, 224, 177, 141, 32, 224, 176, 154, 224, 177, 135,
      224, 176, 175, 224, 176, 161, 224, 176, 190, 224, 176, 168, 224, 176, 191, 224, 176, 149, 224, 176,
      191, 32, 224, 176, 159, 224, 177, 141, 224, 176, 175, 224, 176, 190, 224, 176, 170, 224, 177, 141,
      32, 224, 176, 154, 224, 177, 135, 224, 176, 175, 224, 176, 130, 224, 176, 161, 224, 176, 191 :: nat]"

definition NO_PRODUCE_kn :: string where
  "NO_PRODUCE_kn = map char_of
     [224, 178, 137, 224, 178, 164, 224, 179, 141, 224, 178, 170, 224, 178, 168, 224, 179, 141, 224, 178,
      168, 224, 178, 181, 224, 179, 129, 32, 224, 178, 171, 224, 179, 141, 224, 178, 176, 224, 179, 135,
      224, 178, 174, 224, 179, 141, 226, 128, 140, 224, 178, 168, 32, 224, 178, 185, 224, 179, 134, 224,
      178, 154, 224, 179, 141, 224, 178, 154, 224, 178, 191, 224, 178, 168, 32, 224, 178, 173, 224, 178,
      190, 224, 178, 151, 224, 178, 181, 224, 178, 168, 224, 179, 141, 224, 178, 168, 224, 179, 129, 32,
      224, 178, 164, 224, 179, 129, 224, 178, 130, 224, 178, 172, 224, 178, 191, 224, 178, 176, 224, 179,
      129, 224, 178, 181, 224, 179, 129, 224, 178, 166, 224, 178, 168, 224, 179, 141, 224, 178, 168, 224,
      179, 129, 32, 224, 178, 150, 224, 178, 154, 224, 178, 191, 224, 178, 164, 224, 178, 170, 224, 178,
      161, 224, 178, 191, 224, 178, 184, 224, 178, 191 :: nat]"

definition NO_PRODUCE_hi :: string where
  "NO_PRODUCE_hi = map char_of
     [224, 164, 184, 224, 165, 129, 224, 164, 168, 224, 164, 191, 224, 164, 182, 224, 165, 141, 224, 164,
      154, 224, 164, 191, 224, 164, 164, 32, 224, 164, 149, 224, 164, 176, 224, 165, 135, 224, 164, 130,
      32, 224, 164, 149, 224, 164, 191, 32, 224, 164, 137, 224, 164, 170, 224, 164, 156, 32, 224, 164,
      171, 224, 165, 141, 224, 164, 176, 224, 165, 135, 224, 164, 174, 32, 224, 164, 149, 224, 164, 190,
      32, 224, 164, 133, 224, 164, 167, 224, 164, 191, 224, 164, 149, 224, 164, 190, 224, 164, 130, 224,
      164, 182, 32, 224, 164, 185, 224, 164, 191, 224, 164, 184, 224, 165, 141, 224, 164, 184, 224, 164,
      190, 32, 224, 164, 173, 224, 164, 176, 224, 165, 135 :: nat]"

definition NO_PRODUCE_ta :: string where
  "NO_PRODUCE_ta = map char_of
     [224, 174, 137, 224, 174, 177, 224, 175, 141, 224, 174, 170, 224, 174, 164, 224, 175, 141, 224, 174,
      164, 224, 174, 191, 32, 224, 174, 170, 224, 175, 134, 224, 174, 176, 224, 175, 129, 224, 174, 174,
      224, 175, 141, 224, 174, 170, 224, 174, 190, 224, 174, 178, 224, 174, 190, 224, 174, 169, 32, 224,
      174, 170, 224, 174, 191, 224, 174, 176, 224, 175, 135, 224, 174, 174, 224, 175, 136, 32, 224, 174,
      168, 224, 174, 191, 224, 174, 176, 224, 174, 170, 224, 175, 141, 224, 174, 170, 224, 175, 129, 224,
      174, 181, 224, 174, 164, 224, 175, 136, 32, 224, 174, 137, 224, 174, 177, 224, 175, 129, 224, 174,
      164, 224, 174, 191, 224, 174, 154, 224, 175, 134, 224, 174, 175, 224, 175, 141, 224, 174, 175, 224,
      174, 181, 224, 175, 129, 224, 174, 174, 224, 175, 141 :: nat]"

definition NO_PRODUCE_te :: string where
  "NO_PRODUCE_te = map char_of
     [224, 176, 137, 224, 176, 164, 224, 177, 141, 224, 176, 170, 224, 176, 164, 224, 177, 141, 224, 176,
      164, 224, 176, 191, 32, 224, 176, 171, 224, 177, 141, 224, 176, 176, 224, 177, 135, 224, 176, 174,
      224, 177, 141, 226, 128, 140, 224, 176, 178, 224, 177, 139, 32, 224, 176, 142, 224, 176, 149, 224,
      177, 141, 224, 176, 149, 224, 177, 129, 224, 176, 181, 32, 224, 176, 173, 224, 176, 190, 224, 176,
      151, 224, 176, 130, 32, 224, 176, 168, 224, 176, 191, 224, 176, 130, 224, 176, 170, 224, 177, 129,
      224, 176, 164, 224, 177, 129, 224, 176, 130, 224, 176, 166, 224, 176, 168, 224, 176, 191, 32, 224,
      176, 168, 224, 176, 191, 224, 176, 176, 224, 177, 141, 224, 176, 167, 224, 176, 190, 224, 176, 176,
      224, 176, 191, 224, 176, 130, 224, 176, 154, 224, 177, 129, 224, 176, 149, 224, 177, 139, 224, 176,
      130, 224, 176, 161, 224, 176, 191 :: nat]"

definition LOW_RESOLUTION_kn :: string where
  "LOW_RESOLUTION_kn = map char_of
     [224, 178, 185, 224, 178, 164, 224, 179, 141, 224, 178, 164, 224, 178, 191, 224, 178, 176, 32, 224,
      178, 185, 224, 179, 139, 224, 178, 151, 224, 178, 191, 32, 224, 178, 133, 224, 178, 165, 224, 178,
      181, 224, 178, 190, 32, 224, 178, 185, 224, 179, 134, 224, 178, 154, 224, 179, 141, 224, 178, 154,
      224, 178, 191, 224, 178, 168, 32, 224, 178, 149, 224, 179, 141, 224, 178, 175, 224, 178, 190, 224,
      178, 174, 224, 179, 134, 224, 178, 176, 224, 178, 190, 32, 224, 178, 176, 224, 179, 134, 224, 178,
      184, 224, 178, 178, 224, 179, 141, 224, 178, 175, 224, 179, 130, 224, 178, 182, 224, 178, 168, 224,
      179, 141, 32, 224, 178, 172, 224, 178, 179, 224, 178, 184, 224, 178, 191 :: nat]"

definition LOW_RESOLUTION_hi :: string where
  "LOW_RESOLUTION_hi = map char_of
     [224, 164, 149, 224, 164, 176, 224, 165, 128, 224, 164, 172, 32, 224, 164, 156, 224, 164, 190, 224,
      164, 143, 224, 164, 130, 32, 224, 164, 175, 224, 164, 190, 32, 224, 164, 137, 224, 164, 154, 224,
      165, 141, 224, 164, 154, 32, 224, 164, 149, 224, 165, 136, 224, 164, 174, 224, 164, 176, 224, 164,
      190, 32, 224, 164, 176, 224, 164, 191, 224, 164, 156, 224, 164, 188, 224, 165, 137, 224, 164, 178,
      224, 165, 141, 224, 164, 175, 224, 165, 130, 224, 164, 182, 224, 164, 168, 32, 224, 164, 149, 224,
      164, 190, 32, 224, 164, 137, 224, 164, 170, 224, 164, 175, 224, 165, 139, 224, 164, 151, 32, 224,
      164, 149, 224, 164, 176, 224, 165, 135, 224, 164, 130 :: nat]"

definition LOW_RESOLUTION_ta :: string where
  "LOW_RESOLUTION_ta = map char_of
     [224, 174, 133, 224, 174, 176, 224, 175, 129, 224, 174, 149, 224, 174, 191, 224, 174, 178, 224, 175,
      141, 32, 224, 174, 154, 224, 175, 134, 224, 174, 178, 224, 175, 141, 224, 174, 178, 224, 174, 181,
      224, 175, 129, 224, 174, 174, 224, 175, 141, 32, 224, 174, 133, 224, 174, 178, 224, 175, 141, 224,
      174, 178, 224, 174, 164, 224, 175, 129, 32, 224, 174, 137, 224, 174, 175, 224, 174, 176, 224, 175,
      141, 32, 224, 174, 149, 224, 175, 135, 224, 174, 174, 224, 174, 176, 224, 174, 190, 32, 224, 174,
      164, 224, 175, 134, 224, 174, 179, 224, 174, 191, 224, 174, 181, 224, 175, 129, 224, 174, 164, 224,
      175, 141, 224, 174, 164, 224, 174, 191, 224, 174, 177, 224, 174, 169, 224, 175, 136, 224, 174, 170,
      224, 175, 141, 32, 224, 174, 170, 224, 174, 175, 224, 174, 169, 224, 175, 141, 224, 174, 170, 224,
      174, 159, 224, 175, 129, 224, 174, 164, 224, 175, 141, 224, 174, 164, 224, 174, 181, 224, 175, 129,
      224, 174, 174, 224, 175, 141 :: nat]"

definition LOW_RESOLUTION_te :: string where
  "LOW_RESOLUTION_te = map char_of
     [224, 176, 166, 224, 176, 151, 224, 177, 141, 224, 176, 151, 224, 176, 176, 224, 176, 151, 224, 176,
      190, 32, 224, 176, 181, 224, 177, 134, 224, 176, 179, 224, 177, 141, 224, 176, 179, 224, 176, 130,
      224, 176, 161, 224, 176, 191, 32, 224, 176, 178, 224, 177, 135, 224, 176, 166, 224, 176, 190, 32,
      224, 176, 133, 224, 176, 167, 224, 176, 191, 224, 176, 149, 32, 224, 176, 149, 224, 177, 134, 224,
      176, 174, 224, 177, 134, 224, 176, 176, 224, 176, 190, 32, 224, 176, 176, 224, 176, 191, 224, 176,
      156, 224, 176, 178, 224, 177, 141, 224, 176, 175, 224, 177, 130, 224, 176, 183, 224, 176, 168, 224,
      177, 141, 32, 224, 176, 137, 224, 176, 170, 224, 176, 175, 224, 177, 139, 224, 176, 151, 224, 176,
      191, 224, 176, 130, 224, 176, 154, 224, 176, 130, 224, 176, 161, 224, 176, 191 :: nat]"

definition suggestions :: "(string \<times> js_value) list" where
  "suggestions =
     [(''TOO_DARK'', Obj
        [(''en'', Str ''Move to brighter lighting or use flash''),
         (''kn'', Str TOO_DARK_kn),
         (''hi'', Str TOO_DARK_hi),
         (''ta'', Str TOO_DARK_ta),
         (''te'', Str TOO_DARK_te)]),
      (''TOO_BRIGHT'', Obj
        [(''en'', Str ''Move away from direct sunlight''),
         (''kn'', Str TOO_BRIGHT_kn),
         (''hi'', Str TOO_BRIGHT_hi),
         (''ta'', Str TOO_BRIGHT_ta),
         (''te'', Str TOO_BRIGHT_te)]),
      (''BLURRY'', Obj
        [(''en'', Str ''Hold camera steady and tap to focus''),
         (''kn'', Str BLURRY_kn),
         (''hi'', Str BLURRY_hi),
         (''ta'', Str BLURRY_ta),
         (''te'', Str BLURRY_te)]),
      (''NO_PRODUCE'', Obj
        [(''en'', Str ''Ensure produce fills most of the frame''),
         (''kn'', Str NO_PRODUCE_kn),
         (''hi'', Str NO_PRODUCE_hi),
         (''ta'', Str NO_PRODUCE_ta),
         (''te'', Str NO_PRODUCE_te)]),
      (''LOW_RESOLUTION'', Obj
        [(''en'', Str ''Move closer or use higher camera resolution''),
         (''kn'', Str LOW_RESOLUTION_kn),
         (''hi'', Str LOW_RESOLUTION_hi),
         (''ta'', Str LOW_RESOLUTION_ta),
         (''te'', Str LOW_RESOLUTION_te)])]"

definition getSuggestion :: "string \<Rightarrow> string \<Rightarrow> js_value" where
  "getSuggestion issueType language =
     js_or (optional_get (get_property suggestions issueType) language)
       (js_or (optional_get (get_property suggestions issueType) ''en'')
          (Str ''Please try again''))"

text \<open>
  The text that the table holds for an issue type and a language, if any: the own
  properties only.
\<close>

definition table_entry :: "string \<Rightarrow> string \<Rightarrow> string option" where
  "table_entry issueType language =
     (case map_of suggestions issueType of
        Some (Obj entry) \<Rightarrow>
          (case map_of entry language of Some (Str text) \<Rightarrow> Some text | _ \<Rightarrow> None)
      | _ \<Rightarrow> None)"

subsection \<open>The gRPC handler\<close>

record ValidatePhotoRequest =
  rpc_photoUrl :: string
  rpc_width :: real
  rpc_height :: real

record ValidationIssue =
  rpc_type :: string
  rpc_message :: message_text
  rpc_suggestion :: string

record ValidatePhotoResponse =
  rpc_isValid :: bool
  rpc_qualityScore :: real
  rpc_grade :: string
  rpc_confidence :: real
  rpc_issues :: "ValidationIssue list"

text \<open>\<open>v || d\<close> on numbers: the right operand is taken when \<open>v\<close> is zero.\<close>

definition or_default :: "real \<Rightarrow> real \<Rightarrow> real" where
  "or_default v d = (if v = 0 then d else v)"

text \<open>The request that the handler builds for \<open>validatePhoto\<close>; it passes no buffer.\<close>

definition handler_request :: "ValidatePhotoRequest \<Rightarrow> PhotoValidationRequest" where
  "handler_request req =
     \<lparr>photoUrl = rpc_photoUrl req,
      req_width = or_default (rpc_width req) 1024,
      req_height = or_default (rpc_height req) 768,
      imageBuffer = None\<rparr>"

text \<open>The response passed to the callback when the promise resolves.\<close>

definition ValidatePhotoQuality :: "ValidatePhotoRequest \<Rightarrow> ValidatePhotoResponse" where
  "ValidatePhotoQuality req =
     (let result = validatePhoto (handler_request req)
      in \<lparr>rpc_isValid = isValid result,
          rpc_qualityScore = qualityScore result,
          rpc_grade = grade_name (result_grade result),
          rpc_confidence = result_confidence result,
          rpc_issues =
            map (\<lambda>issue. \<lparr>rpc_type = photo_type issue,
                             rpc_message = photo_message issue,
                             rpc_suggestion = photo_suggestion issue\<rparr>)
              (result_issues result)\<rparr>)"

subsection \<open>Mean and standard deviation of the sampled bytes\<close>

text \<open>
  The notions that the description of \<open>extractStats\<close> uses, stated on their own: the
  window of the first \<open>min(1000, length)\<close> bytes as numbers, the mean of a list, and the
  standard deviation around that mean in its two forms. The population form divides the
  sum of the squared deviations by the number \<open>n\<close> of values, the sample form (Bessel's
  correction) by \<open>n - 1\<close>.
\<close>

definition window :: "Buffer \<Rightarrow> real list" where
  "window buffer = map (\<lambda>b. real (unat b)) (take (min 1000 (length buffer)) buffer)"

definition mean_of :: "real list \<Rightarrow> real" where
  "mean_of xs = sum_list xs / real (length xs)"

definition population_std_dev :: "real list \<Rightarrow> real" where
  "population_std_dev xs = sqrt ((\<Sum>x\<leftarrow>xs. (x - mean_of xs)\<^sup>2) / real (length xs))"

definition sample_std_dev :: "real list \<Rightarrow> real" where
  "sample_std_dev xs = sqrt ((\<Sum>x\<leftarrow>xs. (x - mean_of xs)\<^sup>2) / (real (length xs) - 1))"

subsection \<open>Sample inputs\<close>

definition request_500 :: PhotoValidationRequest where
  "request_500 =
     \<lparr>photoUrl = ''photo.jpg'', req_width = 500, req_height = 500, imageBuffer = None\<rparr>"

definition boundary_stats :: ImageStats where
  "boundary_stats =
     \<lparr>width = 1024, height = 768, brightness = 40, contrast = 50, sharpness = 100,
      hasProduceColors = True\<rparr>"

definition poor_stats :: ImageStats where
  "poor_stats =
     \<lparr>width = 640, height = 480, brightness = 140, contrast = 10, sharpness = 30,
      hasProduceColors = False\<rparr>"

text \<open>A buffer of 100 bytes: fifty bytes 0, then fifty bytes 2.\<close>

definition two_level_buffer :: Buffer where
  "two_level_buffer = replicate 50 0 @ replicate 50 2"

definition zero_width_request :: ValidatePhotoRequest where
  "zero_width_request = \<lparr>rpc_photoUrl = ''photo.jpg'', rpc_width = 0, rpc_height = 500\<rparr>"

definition full_size_request :: ValidatePhotoRequest where
  "full_size_request = \<lparr>rpc_photoUrl = ''photo.jpg'', rpc_width = 1024, rpc_height = 768\<rparr>"

section \<open>Properties\<close>

subsection \<open>The checks in closed form\<close>

lemma scoreToGrade_one: "scoreToGrade 1 = A"
  by (simp add: scoreToGrade_def)

lemma run_checks_fst:
  "fst (run_checks stats) =
     (if width stats < 1024 \<or> height stats < 768
      then [\<lparr>type = LOW_RESOLUTION, severity = 0.5,
              message = Resolution_below_minimum (width stats) (height stats) 1024 768,
              suggestion = ''Move closer to the produce or use higher camera resolution''\<rparr>]
      else []) @
     (if brightness stats < 40
      then [\<lparr>type = TOO_DARK, severity = (40 - brightness stats) / 40,
              message = Literal ''Photo is too dark for accurate quality assessment'',
              suggestion = ''Move to brighter lighting or use flash''\<rparr>]
      else if brightness stats > 220
      then [\<lparr>type = TOO_BRIGHT, severity = (brightness stats - 220) / 35,
              message = Literal ''Photo is overexposed (too bright)'',
              suggestion = ''Move away from direct sunlight or reduce flash''\<rparr>]
      else []) @
     (if sharpness stats < 100
      then [\<lparr>type = BLURRY, severity = (100 - sharpness stats) / 100,
              message = Literal ''Photo is blurry, cannot assess quality accurately'',
              suggestion = ''Hold camera steady and ensure produce is in focus''\<rparr>]
      else []) @
     (if \<not> hasProduceColors stats
      then [\<lparr>type = NO_PRODUCE, severity = 0.8,
              message = Literal ''Cannot detect produce in photo'',
              suggestion = ''Ensure produce fills most of the frame''\<rparr>]
      else [])"
  by (simp add: run_checks_def check_resolution_def check_brightness_def check_sharpness_def
      check_produce_def MIN_WIDTH_def MIN_HEIGHT_def MIN_BRIGHTNESS_def MAX_BRIGHTNESS_def
      MIN_SHARPNESS_def Let_def)

lemma run_checks_snd:
  "snd (run_checks stats) =
     1 - (if width stats < 1024 \<or> height stats < 768 then 0.2 else 0)
       - (if brightness stats < 40 then 0.25 * ((40 - brightness stats) / 40)
          else if brightness stats > 220 then 0.25 * ((brightness stats - 220) / 35) else 0)
       - (if sharpness stats < 100 then 0.3 * ((100 - sharpness stats) / 100) else 0)
       - (if \<not> hasProduceColors stats then 0.4 else 0)"
  by (simp add: run_checks_def check_resolution_def check_brightness_def check_sharpness_def
      check_produce_def MIN_WIDTH_def MIN_HEIGHT_def MIN_BRIGHTNESS_def MAX_BRIGHTNESS_def
      MIN_SHARPNESS_def Let_def)

lemma issues_empty_iff:
  "fst (run_checks stats) = [] \<longleftrightarrow>
     width stats \<ge> 1024 \<and> height stats \<ge> 768 \<and> 40 \<le> brightness stats \<and>
     brightness stats \<le> 220 \<and> sharpness stats \<ge> 100 \<and> hasProduceColors stats"
  by (simp add: run_checks_fst not_less)

lemma predict_issues: "issues (predict stats) = fst (run_checks stats)"
  by (simp add: predict_def Let_def)

lemma predict_grade: "grade (predict stats) = scoreToGrade (rawScore stats)"
  by (simp add: predict_def Let_def)

lemma predict_confidence:
  "confidence (predict stats) = calculateConfidence stats (fst (run_checks stats))"
  by (simp add: predict_def Let_def)

lemma no_issues_score: "fst (run_checks stats) = [] \<Longrightarrow> snd (run_checks stats) = 1"
  by (simp add: issues_empty_iff run_checks_snd)

lemma gradeToScore_simps:
  "gradeToScore A = 0.95" "gradeToScore B = 0.75" "gradeToScore C = 0.55" "gradeToScore REJECT = 0.25"
  by (simp_all add: gradeToScore_def scores_def)

lemma grade_name_own_key: "map_of scores (grade_name g) \<noteq> None"
  by (cases g) (simp_all add: scores_def)

lemma stats_500: "getImageStats request_500 =
  \<lparr>width = 500, height = 500, brightness = 140, contrast = 50, sharpness = 180, hasProduceColors = True\<rparr>"
  by (simp add: getImageStats_def request_500_def)

lemma reduce_confidence_sum:
  "reduce_confidence c found = c - (\<Sum>issue\<leftarrow>found. 0.1 * severity issue)"
  by (induction found arbitrary: c) simp_all

lemma run_checks_severities:
  "map severity (fst (run_checks stats)) =
     (if width stats < 1024 \<or> height stats < 768 then [0.5] else []) @
     (if brightness stats < 40 then [(40 - brightness stats) / 40]
      else if brightness stats > 220 then [(brightness stats - 220) / (255 - 220)] else []) @
     (if sharpness stats < 100 then [(100 - sharpness stats) / 100] else []) @
     (if \<not> hasProduceColors stats then [0.8] else [])"
  by (simp add: run_checks_fst)

lemma run_checks_types:
  "map type (fst (run_checks stats)) =
     (if width stats < 1024 \<or> height stats < 768 then [LOW_RESOLUTION] else []) @
     (if brightness stats < 40 then [TOO_DARK]
      else if brightness stats > 220 then [TOO_BRIGHT] else []) @
     (if sharpness stats < 100 then [BLURRY] else []) @
     (if \<not> hasProduceColors stats then [NO_PRODUCE] else [])"
  by (simp add: run_checks_fst)

lemma calculateConfidence_eq:
  "calculateConfidence stats found =
     max 0.3 (min 0.99
       (0.9 - (\<Sum>issue\<leftarrow>found. 0.1 * severity issue)
            - (if brightness stats < 60 \<or> brightness stats > 180 then 0.1 else 0)))"
proof (cases "brightness stats < 60 \<or> brightness stats > 180")
  case True
  then have "brightness stats > 180 \<or> brightness stats < 60" by blast
  with True show ?thesis
    by (simp only: calculateConfidence_def Let_def reduce_confidence_sum if_True)
next
  case False
  then have "\<not> (brightness stats > 180 \<or> brightness stats < 60)" by blast
  with False show ?thesis
    by (simp only: calculateConfidence_def Let_def reduce_confidence_sum if_False diff_zero)
qed

subsection \<open>The validation result\<close>

text \<open>
  C1. The result's \<open>isValid\<close> is true exactly when the prediction's grade is not
  \<open>REJECT\<close> and the prediction has no issue; so a prediction with at least one issue
  gives \<open>isValid = false\<close>, whatever the grade.
\<close>

theorem validatePhoto_isValid:
  "(isValid (validatePhoto request) \<longleftrightarrow>
      grade (predict (getImageStats request)) \<noteq> REJECT \<and>
      issues (predict (getImageStats request)) = []) \<and>
   (issues (predict (getImageStats request)) \<noteq> [] \<longrightarrow> \<not> isValid (validatePhoto request))"
  by (simp add: validatePhoto_def Let_def)

theorem validatePhoto_isValid_witness:
  "issues (predict (getImageStats request_500)) \<noteq> [] \<and>
   grade (predict (getImageStats request_500)) = B \<and>
   \<not> isValid (validatePhoto request_500)"
  using validatePhoto_isValid [of request_500]
  by (simp add: stats_500 predict_issues predict_grade run_checks_fst run_checks_snd rawScore_def scoreToGrade_def)

text \<open>
  C2. The result's \<open>qualityScore\<close> is \<open>gradeToScore\<close> of the grade, the table sends
  A, B, C and REJECT to 0.95, 0.75, 0.55 and 0.25, and so the score is one of these four.
\<close>

theorem validatePhoto_qualityScore:
  "qualityScore (validatePhoto request) = gradeToScore (result_grade (validatePhoto request)) \<and>
   gradeToScore A = 0.95 \<and> gradeToScore B = 0.75 \<and> gradeToScore C = 0.55 \<and>
   gradeToScore REJECT = 0.25 \<and>
   qualityScore (validatePhoto request) \<in> {0.95, 0.75, 0.55, 0.25}"
proof -
  have eq: "qualityScore (validatePhoto request) = gradeToScore (result_grade (validatePhoto request))"
    by (simp add: validatePhoto_def Let_def)
  have "gradeToScore g \<in> {0.95, 0.75, 0.55, 0.25}" for g
    by (cases g) (simp_all add: gradeToScore_simps)
  with eq show ?thesis by (simp add: gradeToScore_simps)
qed

subsection \<open>The prediction\<close>

text \<open>
  C3. Statistics with width at least 1024, height at least 768, brightness between 40 and
  220, sharpness at least 100 and produce colours give no issue, the score 1 and the
  grade A; the borderline band of the brightness only lowers the confidence, from 0.9 to
  0.8.
\<close>

theorem predict_good_stats:
  assumes "width stats \<ge> 1024" "height stats \<ge> 768"
    "40 \<le> brightness stats" "brightness stats \<le> 220"
    "sharpness stats \<ge> 100" "hasProduceColors stats"
  shows "issues (predict stats) = [] \<and> rawScore stats = 1 \<and> grade (predict stats) = A \<and>
    confidence (predict stats) = (if brightness stats > 180 \<or> brightness stats < 60 then 0.8 else 0.9)"
proof -
  have none: "fst (run_checks stats) = []"
    using assms by (simp add: issues_empty_iff)
  then have one: "rawScore stats = 1"
    by (simp add: rawScore_def no_issues_score)
  show ?thesis
    using none one
    by (simp add: predict_issues predict_grade predict_confidence scoreToGrade_one
        calculateConfidence_def Let_def)
qed

theorem predict_good_stats_witness:
  "issues (predict boundary_stats) = [] \<and> rawScore boundary_stats = 1 \<and>
   grade (predict boundary_stats) = A \<and> confidence (predict boundary_stats) = 0.8"
  using predict_good_stats [of boundary_stats] by (simp add: boundary_stats_def)

text \<open>
  C4. The confidence is 0.9, less a tenth of the severity of every issue of the
  prediction, less 0.1 when the brightness is below 60 or above 180, clamped to the
  interval from 0.3 to 0.99. The severities are the ones the checks computed, without a
  clamp of their own.
\<close>

theorem predict_confidence_formula:
  "confidence (predict stats) =
     max 0.3 (min 0.99
       (0.9 - (\<Sum>issue\<leftarrow>issues (predict stats). 0.1 * severity issue)
            - (if brightness stats < 60 \<or> brightness stats > 180 then 0.1 else 0))) \<and>
   map severity (issues (predict stats)) =
     (if width stats < 1024 \<or> height stats < 768 then [0.5] else []) @
     (if brightness stats < 40 then [(40 - brightness stats) / 40]
      else if brightness stats > 220 then [(brightness stats - 220) / (255 - 220)] else []) @
     (if sharpness stats < 100 then [(100 - sharpness stats) / 100] else []) @
     (if \<not> hasProduceColors stats then [0.8] else []) \<and>
   0.3 \<le> confidence (predict stats) \<and> confidence (predict stats) \<le> 0.99"
proof -
  have "confidence (predict stats) =
     max 0.3 (min 0.99
       (0.9 - (\<Sum>issue\<leftarrow>issues (predict stats). 0.1 * severity issue)
            - (if brightness stats < 60 \<or> brightness stats > 180 then 0.1 else 0)))"
    unfolding predict_confidence predict_issues by (rule calculateConfidence_eq)
  moreover have "0.3 \<le> confidence (predict stats)" "confidence (predict stats) \<le> 0.99"
    by (simp_all add: predict_confidence calculateConfidence_def Let_def)
  ultimately show ?thesis
    by (simp only: predict_issues run_checks_severities simp_thms)
qed

text \<open>
  C8. The issue types of a prediction are, in this order, \<open>LOW_RESOLUTION\<close>, one of
  \<open>TOO_DARK\<close> and \<open>TOO_BRIGHT\<close>, \<open>BLURRY\<close> and \<open>NO_PRODUCE\<close>, each present or
  not; the two brightness issues never occur together and no type occurs twice.
\<close>

theorem predict_issue_order:
  "map type (issues (predict stats)) =
     (if width stats < 1024 \<or> height stats < 768 then [LOW_RESOLUTION] else []) @
     (if brightness stats < 40 then [TOO_DARK]
      else if brightness stats > 220 then [TOO_BRIGHT] else []) @
     (if sharpness stats < 100 then [BLURRY] else []) @
     (if \<not> hasProduceColors stats then [NO_PRODUCE] else []) \<and>
   \<not> (TOO_DARK \<in> set (map type (issues (predict stats))) \<and>
      TOO_BRIGHT \<in> set (map type (issues (predict stats)))) \<and>
   distinct (map type (issues (predict stats))) \<and>
   (subseq (map type (issues (predict stats))) [LOW_RESOLUTION, TOO_DARK, BLURRY, NO_PRODUCE] \<or>
    subseq (map type (issues (predict stats))) [LOW_RESOLUTION, TOO_BRIGHT, BLURRY, NO_PRODUCE])"
  unfolding predict_issues run_checks_types
  by (simp)

text \<open>
  C9. A prediction without issues has the score 1 and the grade A, so the grade
  \<open>REJECT\<close> comes with at least one issue, and \<open>isValid\<close> of the result says no more
  than that the prediction has no issue.
\<close>

theorem no_issues_grade_A:
  "(issues (predict stats) = [] \<longrightarrow> rawScore stats = 1 \<and> grade (predict stats) = A) \<and>
   (grade (predict stats) = REJECT \<longrightarrow> issues (predict stats) \<noteq> []) \<and>
   (isValid (validatePhoto request) \<longleftrightarrow> issues (predict (getImageStats request)) = [])"
proof -
  have a: "issues (predict s) = [] \<Longrightarrow> rawScore s = 1 \<and> grade (predict s) = A" for s
    by (simp add: predict_issues predict_grade rawScore_def no_issues_score scoreToGrade_one)
  then have b: "grade (predict s) = REJECT \<Longrightarrow> issues (predict s) \<noteq> []" for s
    by auto
  have c: "isValid (validatePhoto request) \<longleftrightarrow> issues (predict (getImageStats request)) = []"
    using a [of "getImageStats request"] by (auto simp add: validatePhoto_def Let_def)
  from a b c show ?thesis by blast
qed

theorem no_issues_grade_A_witness:
  "issues (predict boundary_stats) = [] \<and> grade (predict boundary_stats) = A \<and>
   grade (predict poor_stats) = REJECT \<and> issues (predict poor_stats) \<noteq> []"
  using no_issues_grade_A [of boundary_stats request_500]
    no_issues_grade_A [of poor_stats request_500]
  by (simp add: boundary_stats_def poor_stats_def predict_issues predict_grade run_checks_fst
      run_checks_snd rawScore_def scoreToGrade_def)

subsection \<open>Requests without a buffer\<close>

text \<open>
  C6. A request without a buffer gets the neutral statistics (brightness 140, contrast 50,
  sharpness 180, produce colours present) with the declared width and height. For the
  declared size 500 by 500 the only issue is \<open>LOW_RESOLUTION\<close>, the score is 0.8, the
  grade B, the quality score 0.75, and the result is not valid.
\<close>

theorem neutral_stats_scenario:
  "getImageStats \<lparr>photoUrl = url, req_width = w, req_height = h, imageBuffer = None\<rparr> =
     \<lparr>width = w, height = h, brightness = 140, contrast = 50, sharpness = 180,
      hasProduceColors = True\<rparr> \<and>
   map type (issues (predict (getImageStats
     \<lparr>photoUrl = url, req_width = 500, req_height = 500, imageBuffer = None\<rparr>))) = [LOW_RESOLUTION] \<and>
   map photo_type (result_issues (validatePhoto
     \<lparr>photoUrl = url, req_width = 500, req_height = 500, imageBuffer = None\<rparr>)) = [''LOW_RESOLUTION''] \<and>
   rawScore (getImageStats
     \<lparr>photoUrl = url, req_width = 500, req_height = 500, imageBuffer = None\<rparr>) = 0.8 \<and>
   result_grade (validatePhoto
     \<lparr>photoUrl = url, req_width = 500, req_height = 500, imageBuffer = None\<rparr>) = B \<and>
   qualityScore (validatePhoto
     \<lparr>photoUrl = url, req_width = 500, req_height = 500, imageBuffer = None\<rparr>) = 0.75 \<and>
   \<not> isValid (validatePhoto
     \<lparr>photoUrl = url, req_width = 500, req_height = 500, imageBuffer = None\<rparr>)"
proof -
  let ?r = "\<lparr>photoUrl = url, req_width = 500, req_height = 500, imageBuffer = None\<rparr>"
  let ?s = "\<lparr>width = 500, height = 500, brightness = 140, contrast = 50, sharpness = 180,
      hasProduceColors = True\<rparr>"
  have s: "getImageStats ?r = ?s" by (simp add: getImageStats_def)
  have t: "map type (fst (run_checks ?s)) = [LOW_RESOLUTION]"
    by (simp add: run_checks_types)
  have sc: "rawScore ?s = 0.8" by (simp add: rawScore_def run_checks_snd)
  have g: "grade (predict ?s) = B" by (simp add: predict_grade sc scoreToGrade_def)
  have i: "map photo_type (result_issues (validatePhoto ?r)) = [''LOW_RESOLUTION'']"
    by (simp add: validatePhoto_def Let_def s predict_issues run_checks_fst)
  have v: "\<not> isValid (validatePhoto ?r)"
    using t by (auto simp add: validatePhoto_def Let_def s predict_issues)
  have q: "qualityScore (validatePhoto ?r) = 0.75" "result_grade (validatePhoto ?r) = B"
    by (simp_all add: validatePhoto_def Let_def s g gradeToScore_simps)
  show ?thesis
    using s t sc i v q by (simp add: getImageStats_def predict_issues)
qed

subsection \<open>The statistics of a buffer\<close>

text \<open>The two loops compute sums over the indices below \<open>sampleSize\<close>.\<close>

lemma sum_loop_eq:
  "sum_loop buffer n i acc = acc + (\<Sum>k = i..<n. byte_at buffer k)"
proof (induction buffer n i acc rule: sum_loop.induct)
  case (1 buffer n i acc)
  show ?case
  proof (cases "i < n")
    case True
    with "1" show ?thesis
      by (subst sum_loop.simps) (simp add: sum.atLeast_Suc_lessThan add.assoc)
  next
    case False
    then show ?thesis by (subst sum_loop.simps) simp
  qed
qed

lemma variance_loop_eq:
  "variance_loop buffer m n i acc = acc + (\<Sum>k = i..<n. (byte_at buffer k - m)\<^sup>2)"
proof (induction buffer m n i acc rule: variance_loop.induct)
  case (1 buffer m n i acc)
  show ?case
  proof (cases "i < n")
    case True
    with "1" show ?thesis
      by (subst variance_loop.simps) (simp add: sum.atLeast_Suc_lessThan add.assoc)
  next
    case False
    then show ?thesis by (subst variance_loop.simps) simp
  qed
qed

lemma length_window: "length (window buffer) = min 1000 (length buffer)"
  by (simp add: window_def)

lemma sum_over_window:
  "(\<Sum>k = 0..<min 1000 (length buffer). f (byte_at buffer k)) = (\<Sum>x\<leftarrow>window buffer. f x)"
proof -
  have "(\<Sum>x\<leftarrow>window buffer. f x) = (\<Sum>k = 0..<length (window buffer). map f (window buffer) ! k)"
    by (simp add: sum_list_sum_nth)
  also have "\<dots> = (\<Sum>k = 0..<min 1000 (length buffer). f (byte_at buffer k))"
    by (rule sum.cong) (simp_all add: length_window window_def byte_at_def)
  finally show ?thesis by simp
qed

lemma mockBrightness_eq:
  "mockBrightness buffer = (if length buffer < 100 then 128 else mean_of (window buffer))"
  using sum_over_window [of "\<lambda>x. x" buffer]
  by (simp add: mockBrightness_def Let_def sum_loop_eq mean_of_def length_window)

lemma mockContrast_eq:
  "mockContrast buffer =
     (if length buffer < 100 then 50 else population_std_dev (window buffer))"
  using sum_over_window [of "\<lambda>x. (x - mean_of (window buffer))\<^sup>2" buffer]
  by (simp add: mockContrast_def Let_def variance_loop_eq mockBrightness_eq
      population_std_dev_def length_window)

lemma length_two_level: "length two_level_buffer = 100"
  by (simp add: two_level_buffer_def)

lemma window_two_level: "window two_level_buffer = replicate 50 0 @ replicate 50 2"
  by (simp add: window_def length_two_level) (simp add: two_level_buffer_def)

lemma mean_two_level: "mean_of (replicate 50 0 @ replicate 50 2) = 1"
  by (simp add: mean_of_def sum_list_replicate)

lemma squares_two_level:
  "(\<Sum>x\<leftarrow>replicate 50 0 @ replicate 50 2. (x - mean_of (replicate 50 0 @ replicate 50 2))\<^sup>2) = 100"
  by (simp add: mean_two_level sum_list_replicate)

lemma population_two_level: "population_std_dev (window two_level_buffer) = 1"
  by (simp add: population_std_dev_def window_two_level squares_two_level del: map_append)

lemma sample_two_level: "sample_std_dev (window two_level_buffer) = sqrt (100 / 99)"
  by (simp add: sample_std_dev_def window_two_level squares_two_level del: map_append)

text \<open>
  C5, as the claim states it, fails: on the buffer of fifty bytes 0 and fifty bytes 2 the
  contrast is 1, the population standard deviation of the window, while the sample standard
  deviation of the window is the square root of 100/99.
\<close>

theorem extractStats_contrast_counterexample:
  "contrast (extractStats two_level_buffer 1024 768) \<noteq> sample_std_dev (window two_level_buffer)"
proof -
  have "contrast (extractStats two_level_buffer 1024 768) = 1"
    by (simp add: extractStats_def mockContrast_eq length_two_level population_two_level)
  moreover have "sqrt (100 / 99) \<noteq> (1::real)"
    by (simp add: real_sqrt_eq_1_iff)
  ultimately show ?thesis by (simp add: sample_two_level)
qed

text \<open>
  C5, amended. For a buffer shorter than 100 bytes \<open>extractStats\<close> returns brightness
  128, contrast 50 and sharpness 150. Otherwise the brightness is the mean of the first
  \<open>min(1000, length)\<close> bytes, the contrast is the standard deviation of that window
  around that mean with the divisor \<open>n\<close> (the population form), and the sharpness is
  three times the contrast. In both cases \<open>hasProduceColors\<close> says that the buffer has
  more than 10000 bytes, and the width and height are the declared ones.
\<close>

theorem extractStats_eq:
  "extractStats buffer w h =
     (if length buffer < 100
      then \<lparr>width = w, height = h, brightness = 128, contrast = 50, sharpness = 150,
            hasProduceColors = (length buffer > 10000)\<rparr>
      else \<lparr>width = w, height = h,
            brightness = mean_of (window buffer),
            contrast = population_std_dev (window buffer),
            sharpness = population_std_dev (window buffer) * 3,
            hasProduceColors = (length buffer > 10000)\<rparr>)"
  by (simp add: extractStats_def mockBrightness_eq mockContrast_eq mockSharpness_def
      mockProduceDetection_def)

subsection \<open>The suggestion table\<close>

lemma texts_nonempty:
  "TOO_DARK_kn \<noteq> []" "TOO_DARK_hi \<noteq> []" "TOO_DARK_ta \<noteq> []" "TOO_DARK_te \<noteq> []"
  "TOO_BRIGHT_kn \<noteq> []" "TOO_BRIGHT_hi \<noteq> []" "TOO_BRIGHT_ta \<noteq> []" "TOO_BRIGHT_te \<noteq> []"
  "BLURRY_kn \<noteq> []" "BLURRY_hi \<noteq> []" "BLURRY_ta \<noteq> []" "BLURRY_te \<noteq> []"
  "NO_PRODUCE_kn \<noteq> []" "NO_PRODUCE_hi \<noteq> []" "NO_PRODUCE_ta \<noteq> []" "NO_PRODUCE_te \<noteq> []"
  "LOW_RESOLUTION_kn \<noteq> []" "LOW_RESOLUTION_hi \<noteq> []" "LOW_RESOLUTION_ta \<noteq> []"
  "LOW_RESOLUTION_te \<noteq> []"
  by (simp_all add: TOO_DARK_kn_def TOO_DARK_hi_def TOO_DARK_ta_def TOO_DARK_te_def
      TOO_BRIGHT_kn_def TOO_BRIGHT_hi_def TOO_BRIGHT_ta_def TOO_BRIGHT_te_def
      BLURRY_kn_def BLURRY_hi_def BLURRY_ta_def BLURRY_te_def
      NO_PRODUCE_kn_def NO_PRODUCE_hi_def NO_PRODUCE_ta_def NO_PRODUCE_te_def
      LOW_RESOLUTION_kn_def LOW_RESOLUTION_hi_def LOW_RESOLUTION_ta_def LOW_RESOLUTION_te_def)

text \<open>
  For keys that name no member of \<open>Object.prototype\<close> the lookup is the chain of the
  description: the entry for the language, else the English entry, else the generic text.
\<close>

lemma getSuggestion_chain:
  assumes "issueType \<notin> set Object_prototype_members"
    and "language \<notin> set Object_prototype_members"
  shows "getSuggestion issueType language =
     Str (case table_entry issueType language of
            Some text \<Rightarrow> text
          | None \<Rightarrow>
              (case table_entry issueType ''en'' of
                 Some text \<Rightarrow> text
               | None \<Rightarrow> ''Please try again''))"
  using assms
  by (simp add: getSuggestion_def table_entry_def suggestions_def get_property_def js_or_def
      texts_nonempty)

theorem getSuggestion_inherited_language:
  "getSuggestion ''TOO_DARK'' ''hi'' = Str TOO_DARK_hi \<and>
   getSuggestion ''TOO_DARK'' ''xx'' = Str ''Move to brighter lighting or use flash'' \<and>
   getSuggestion ''NOT_A_TYPE'' ''en'' = Str ''Please try again'' \<and>
   getSuggestion ''TOO_DARK'' ''constructor'' = Proto_member ''constructor''"
  by (simp add: getSuggestion_def suggestions_def get_property_def js_or_def
      Object_prototype_members_def texts_nonempty)

subsection \<open>The gRPC handler\<close>

lemma handler_response_types:
  "map rpc_type (rpc_issues (ValidatePhotoQuality req)) =
     (if or_default (rpc_width req) 1024 < 1024 \<or> or_default (rpc_height req) 768 < 768
      then [''LOW_RESOLUTION''] else [])"
  by (simp add: ValidatePhotoQuality_def Let_def validatePhoto_def handler_request_def
      getImageStats_def predict_issues run_checks_fst)

lemma ValidatePhotoQuality_or_default:
  "ValidatePhotoQuality req =
   ValidatePhotoQuality (req\<lparr>rpc_width := or_default (rpc_width req) 1024,
                             rpc_height := or_default (rpc_height req) 768\<rparr>)"
  by (simp add: ValidatePhotoQuality_def handler_request_def or_default_def)

text \<open>
  C10, as the claim states it, fails: a request that declares the width 0 and the height
  500 is validated as 1024 by 500, gets the \<open>LOW_RESOLUTION\<close> issue, and its response
  differs from the one of a request that declares 1024 by 768.
\<close>

theorem ValidatePhotoQuality_zero_width_counterexample:
  "''LOW_RESOLUTION'' \<in> set (map rpc_type (rpc_issues (ValidatePhotoQuality zero_width_request))) \<and>
   rpc_issues (ValidatePhotoQuality full_size_request) = [] \<and>
   ValidatePhotoQuality zero_width_request \<noteq> ValidatePhotoQuality full_size_request"
proof -
  have a: "map rpc_type (rpc_issues (ValidatePhotoQuality zero_width_request)) = [''LOW_RESOLUTION'']"
    by (simp add: handler_response_types zero_width_request_def or_default_def)
  have "map rpc_type (rpc_issues (ValidatePhotoQuality full_size_request)) = []"
    by (simp add: handler_response_types full_size_request_def or_default_def)
  then have b: "rpc_issues (ValidatePhotoQuality full_size_request) = []"
    by simp
  from a b have "rpc_issues (ValidatePhotoQuality zero_width_request) \<noteq>
      rpc_issues (ValidatePhotoQuality full_size_request)"
    by auto
  then have "ValidatePhotoQuality zero_width_request \<noteq> ValidatePhotoQuality full_size_request"
    by metis
  with a b show ?thesis by simp
qed

text \<open>
  C10, amended. The handler replaces a width 0 by 1024 and a height 0 by 768, each on its
  own, and the request is validated as if it had declared the replaced values. The
  low-resolution check fires exactly when a non-zero declared width is below 1024 or a
  non-zero declared height is below 768; so a request that declares 0 by 0 is validated as
  1024 by 768 and has no issue.
\<close>

theorem ValidatePhotoQuality_defaults:
  "req_width (handler_request req) = (if rpc_width req = 0 then 1024 else rpc_width req) \<and>
   req_height (handler_request req) = (if rpc_height req = 0 then 768 else rpc_height req) \<and>
   ValidatePhotoQuality req =
     ValidatePhotoQuality
       (req\<lparr>rpc_width := (if rpc_width req = 0 then 1024 else rpc_width req),
             rpc_height := (if rpc_height req = 0 then 768 else rpc_height req)\<rparr>) \<and>
   (''LOW_RESOLUTION'' \<in> set (map rpc_type (rpc_issues (ValidatePhotoQuality req))) \<longleftrightarrow>
      (rpc_width req \<noteq> 0 \<and> rpc_width req < 1024) \<or>
      (rpc_height req \<noteq> 0 \<and> rpc_height req < 768)) \<and>
   ValidatePhotoQuality \<lparr>rpc_photoUrl = url, rpc_width = 0, rpc_height = 0\<rparr> =
     ValidatePhotoQuality \<lparr>rpc_photoUrl = url, rpc_width = 1024, rpc_height = 768\<rparr> \<and>
   rpc_issues (ValidatePhotoQuality \<lparr>rpc_photoUrl = url, rpc_width = 0, rpc_height = 0\<rparr>) = []"
proof -
  have d: "req_width (handler_request req) = (if rpc_width req = 0 then 1024 else rpc_width req)"
    "req_height (handler_request req) = (if rpc_height req = 0 then 768 else rpc_height req)"
    by (simp_all add: handler_request_def or_default_def)
  have e: "ValidatePhotoQuality req =
     ValidatePhotoQuality
       (req\<lparr>rpc_width := (if rpc_width req = 0 then 1024 else rpc_width req),
             rpc_height := (if rpc_height req = 0 then 768 else rpc_height req)\<rparr>)"
    using ValidatePhotoQuality_or_default [of req] by (simp only: or_default_def)
  have f: "''LOW_RESOLUTION'' \<in> set (map rpc_type (rpc_issues (ValidatePhotoQuality req))) \<longleftrightarrow>
      (rpc_width req \<noteq> 0 \<and> rpc_width req < 1024) \<or>
      (rpc_height req \<noteq> 0 \<and> rpc_height req < 768)"
    by (simp add: handler_response_types or_default_def)
  have g: "ValidatePhotoQuality \<lparr>rpc_photoUrl = url, rpc_width = 0, rpc_height = 0\<rparr> =
     ValidatePhotoQuality \<lparr>rpc_photoUrl = url, rpc_width = 1024, rpc_height = 768\<rparr>"
    by (simp add: ValidatePhotoQuality_def handler_request_def or_default_def)
  have "map rpc_type (rpc_issues
      (ValidatePhotoQuality \<lparr>rpc_photoUrl = url, rpc_width = 0, rpc_height = 0\<rparr>)) = []"
    by (simp add: handler_response_types or_default_def)
  then have h: "rpc_issues
      (ValidatePhotoQuality \<lparr>rpc_photoUrl = url, rpc_width = 0, rpc_height = 0\<rparr>) = []"
    by simp
  from d e f g h show ?thesis by (simp only: simp_thms)
qed

end
